theory Spec2Isabelle
  imports Main "HOL-Library.AList"
begin

section \<open>The dataset class \<open>eyeballDataset\<close> of the U-Net notebook\<close>

text \<open>
  The notebook holds one class, \<open>eyeballDataset\<close>, with the methods \<open>__init__\<close>,
  \<open>__len__\<close> and \<open>__getitem__\<close>. Every exception the Python can raise is a value of
  \<open>error\<close>; a method returns \<open>error + result\<close> with \<open>Inl\<close> for the exception.
\<close>

subsection \<open>Exceptions\<close>

text \<open>
  Failures of the operating system and of the image decoder (\<open>iterdir\<close>,
  \<open>Image.open\<close>) are kept apart from the exceptions the interpreter raises itself.
\<close>

datatype io_error =
  FileNotFoundError | NotADirectoryError | IsADirectoryError | PermissionError
  | UnidentifiedImageError

datatype error =
  IndexError | KeyError string | TypeError | AttributeError string | OSError io_error

subsection \<open>Paths: \<open>pathlib.Path\<close>\<close>

text \<open>
  A path is the list of its components (\<open>Path.parts\<close>). \<open>p.name\<close> is the last
  component, the empty string when there is none. \<open>p.stem\<close> is the name without its
  last suffix; as in pathlib, a dot at the first or at the last position of the name does
  not start a suffix:
  \<^verbatim>\<open>
  i = name.rfind('.')
  if 0 < i < len(name) - 1: return name[:i]
  else: return name
  \<close>
\<close>

type_synonym path = "string list"

definition name :: "path \<Rightarrow> string" where
  "name p = (case rev p of [] \<Rightarrow> [] | n # _ \<Rightarrow> n)"

definition rfind :: "string \<Rightarrow> char \<Rightarrow> int" where
  \<comment> \<open>\<open>str.rfind\<close>: the highest index holding \<open>c\<close>, \<open>-1\<close> when there is none.\<close>
  "rfind s c =
     (if c \<in> set s then int (length s) - 1 - int (length (takeWhile (\<lambda>x. x \<noteq> c) (rev s)))
      else - 1)"

definition stem :: "path \<Rightarrow> string" where
  "stem p =
     (let nm = name p; i = rfind nm (CHR ''.'')
      in if 0 < i \<and> i < int (length nm) - 1 then take (nat i) nm else nm)"

text \<open>
  \<open>s[:k]\<close>: a negative bound counts from the end, and a bound before the start of the
  string gives the empty string.
\<close>

definition slice_upto :: "'a list \<Rightarrow> int \<Rightarrow> 'a list" where
  "slice_upto s k = (if 0 \<le> k then take (nat k) s else take (nat (int (length s) + k)) s)"

text \<open>
  \<open>d.iterdir()\<close> yields \<open>d / n\<close> for every entry name \<open>n\<close> of the directory, in the
  order the operating system lists them. The listing function \<open>listdir\<close> is the file
  system the program runs on.
\<close>

definition iterdir :: "(path \<Rightarrow> io_error + string list) \<Rightarrow> path \<Rightarrow> error + path list" where
  "iterdir listdir d =
     (case listdir d of Inl e \<Rightarrow> Inl (OSError e) | Inr ns \<Rightarrow> Inr (map (\<lambda>n. d @ [n]) ns))"

subsection \<open>Dictionaries and lists\<close>

text \<open>
  A Python dict keeps its keys in insertion order; storing under a key that is present
  replaces the value and leaves the key where it is. That is \<open>AList.update\<close> on an
  association list. A comprehension \<open>{key(p): p for p in xs}\<close> stores the elements of
  \<open>xs\<close> from left to right.
\<close>

type_synonym ('k, 'v) dict = "('k \<times> 'v) list"

definition dict_comp :: "('v \<Rightarrow> 'k) \<Rightarrow> 'v list \<Rightarrow> ('k, 'v) dict" where
  "dict_comp key xs = foldl (\<lambda>d p. AList.update (key p) p d) [] xs"

definition keys :: "('k, 'v) dict \<Rightarrow> 'k list" where
  "keys d = map fst d"

definition dict_getitem :: "(string, 'v) dict \<Rightarrow> string \<Rightarrow> error + 'v" where
  \<comment> \<open>\<open>d[k]\<close>\<close>
  "dict_getitem d k = (case map_of d k of None \<Rightarrow> Inl (KeyError k) | Some v \<Rightarrow> Inr v)"

definition list_getitem :: "'a list \<Rightarrow> int \<Rightarrow> error + 'a" where
  \<comment> \<open>\<open>xs[i]\<close> for an integer \<open>i\<close>: positions \<open>-len(xs) .. len(xs) - 1\<close> are valid.\<close>
  "list_getitem xs i =
     (if 0 \<le> i \<and> i < int (length xs) then Inr (xs ! nat i)
      else if - int (length xs) \<le> i \<and> i < 0 then Inr (xs ! nat (int (length xs) + i))
      else Inl IndexError)"

subsection \<open>The transforms attribute\<close>

text \<open>
  A \<open>Resize\<close> object carries its size and its interpolation mode. The constructor of
  torchvision is \<open>Resize(size, interpolation=InterpolationMode.BILINEAR, ...)\<close>: a call
  without the keyword, as \<open>transforms.Resize(572)\<close> is, builds an object whose
  interpolation is bilinear. \<open>self.transforms\<close> is written with braces, which makes it a
  Python set of the two transform objects. Calling a value goes through its type's
  \<open>__call__\<close>: a set has none and the call raises TypeError; a callable is applied to
  the argument.
\<close>

datatype interpolation = NEAREST | BILINEAR | BICUBIC

datatype transform = Resize nat interpolation | ToTensor

definition Resize_init :: "nat \<Rightarrow> interpolation option \<Rightarrow> transform" where
  "Resize_init sz interp = Resize sz (case interp of None \<Rightarrow> BILINEAR | Some i \<Rightarrow> i)"

datatype ('img, 'out) pyval =
  PySet "transform set" | PyCallable "'img \<Rightarrow> error + 'out"

fun py_call :: "('img, 'out) pyval \<Rightarrow> 'img \<Rightarrow> error + 'out" where
  "py_call (PySet s) x = Inl TypeError"
| "py_call (PyCallable f) x = f x"


subsection \<open>The class\<close>

text \<open>
  \<^verbatim>\<open>
  def __init__(self, image_path:Path, mask_path:Path):
      self.images = {p.stem: p for p in image_path.iterdir()}
      # [:-5] gets rid of the "_mask" in the key values
      self.masks = {p.stem[:-5]: p for p in mask_path.iterdir()}
      self.ids = list(self.images.keys())
      self.transforms = { transforms.Resize(572), transforms.ToTensor() }
  \<close>
  The two parameters are annotated as \<open>Path\<close> and are paths here; a directory that
  cannot be listed makes \<open>iterdir\<close>, and with it the constructor, fail. The image
  directory is listed first. The instance has exactly the four attributes \<open>__init__\<close>
  assigns.
\<close>

record ('img, 'out) eyeballDataset =
  images :: "(string, path) dict"
  masks :: "(string, path) dict"
  ids :: "string list"
  transforms :: "('img, 'out) pyval"

definition init ::
  "(path \<Rightarrow> io_error + string list) \<Rightarrow> path \<Rightarrow> path \<Rightarrow> error + ('img, 'out) eyeballDataset" where
  "init listdir image_path mask_path =
     (case iterdir listdir image_path of Inl e \<Rightarrow> Inl e | Inr image_files \<Rightarrow>
      (case iterdir listdir mask_path of Inl e \<Rightarrow> Inl e | Inr mask_files \<Rightarrow>
        Inr \<lparr> images = dict_comp stem image_files,
              masks = dict_comp (\<lambda>p. slice_upto (stem p) (- 5)) mask_files,
              ids = keys (dict_comp stem image_files),
              transforms = PySet {Resize_init 572 None, ToTensor} \<rparr>))"

text \<open>
  \<^verbatim>\<open>
  def __len__(self):
      return len(self.data)
  \<close>
  \<open>self.data\<close> is an attribute lookup on the instance. The class body defines only the
  three methods, so a name other than the four instance attributes is not found.
\<close>

datatype ('img, 'out) pyobj =
  DictObj "(string, path) dict" | ListObj "string list" | ValObj "('img, 'out) pyval"

definition getattr :: "('img, 'out) eyeballDataset \<Rightarrow> string \<Rightarrow> error + ('img, 'out) pyobj" where
  "getattr self n =
     (if n = ''images'' then Inr (DictObj (images self))
      else if n = ''masks'' then Inr (DictObj (masks self))
      else if n = ''ids'' then Inr (ListObj (ids self))
      else if n = ''transforms'' then Inr (ValObj (transforms self))
      else Inl (AttributeError n))"

fun py_len :: "('img, 'out) pyobj \<Rightarrow> error + nat" where
  "py_len (DictObj d) = Inr (length d)"
| "py_len (ListObj xs) = Inr (length xs)"
| "py_len (ValObj (PySet s)) = Inr (card s)"
| "py_len (ValObj (PyCallable f)) = Inl TypeError"

definition len :: "('img, 'out) eyeballDataset \<Rightarrow> error + nat" where
  "len self = (case getattr self ''data'' of Inl e \<Rightarrow> Inl e | Inr v \<Rightarrow> py_len v)"

text \<open>
  \<^verbatim>\<open>
  def __getitem__(self, idx):
      id_ = self.ids[idx]
      image = Image.open(self.images[id_])
      mask = Image.open(self.masks[id_])
      image = self.transforms(image)
      mask = self.transforms(mask)
      return image,mask
  \<close>
  \<open>Image_open\<close> is the decoder the program runs on: it returns the opened image or the
  failure. The statements run in the order written, so the image file is opened before
  the mask path is looked up. The method assigns no attribute: the dataset after the call
  is the dataset before it, which \<open>getitem_st\<close> writes out.
\<close>

definition getitem ::
  "('img, 'out) eyeballDataset \<Rightarrow> (path \<Rightarrow> io_error + 'img) \<Rightarrow> int \<Rightarrow> error + ('out \<times> 'out)" where
  "getitem self Image_open idx =
     (case list_getitem (ids self) idx of Inl e \<Rightarrow> Inl e | Inr id_ \<Rightarrow>
      (case dict_getitem (images self) id_ of Inl e \<Rightarrow> Inl e | Inr ipath \<Rightarrow>
       (case Image_open ipath of Inl e \<Rightarrow> Inl (OSError e) | Inr img \<Rightarrow>
        (case dict_getitem (masks self) id_ of Inl e \<Rightarrow> Inl e | Inr mpath \<Rightarrow>
         (case Image_open mpath of Inl e \<Rightarrow> Inl (OSError e) | Inr msk \<Rightarrow>
          (case py_call (transforms self) img of Inl e \<Rightarrow> Inl e | Inr img' \<Rightarrow>
           (case py_call (transforms self) msk of Inl e \<Rightarrow> Inl e | Inr msk' \<Rightarrow>
             Inr (img', msk'))))))))"

definition getitem_st ::
  "('img, 'out) eyeballDataset \<Rightarrow> (path \<Rightarrow> io_error + 'img) \<Rightarrow> int
     \<Rightarrow> (error + ('out \<times> 'out)) \<times> ('img, 'out) eyeballDataset" where
  "getitem_st self Image_open idx = (getitem self Image_open idx, self)"

subsection \<open>Example file systems\<close>

text \<open>
  \<open>drive_listdir\<close> lists two training images and their two masks, named as in the DRIVE
  data set; \<open>unpaired_listdir\<close> lacks the mask of the second image. An opened image
  is represented by the path it was opened from. \<open>open_all\<close> opens every file;
  \<open>open_masks_only\<close> fails to decode the files of the image directory.
\<close>

definition drive_listdir :: "path \<Rightarrow> io_error + string list" where
  "drive_listdir d =
     (if d = [''images''] then Inr [''21_training.tif'', ''22_training.tif'']
      else if d = [''mask''] then Inr [''21_training_mask.gif'', ''22_training_mask.gif'']
      else Inl FileNotFoundError)"

definition unpaired_listdir :: "path \<Rightarrow> io_error + string list" where
  "unpaired_listdir d =
     (if d = [''images''] then Inr [''21_training.tif'', ''22_training.tif'']
      else if d = [''mask''] then Inr [''21_training_mask.gif'']
      else Inl FileNotFoundError)"

definition open_all :: "path \<Rightarrow> io_error + path" where
  "open_all p = Inr p"

definition open_masks_only :: "path \<Rightarrow> io_error + path" where
  "open_masks_only p = (if take 1 p = [''images''] then Inl UnidentifiedImageError else Inr p)"

definition drive_ds :: "(path, path) eyeballDataset" where
  "drive_ds =
     \<lparr> images = [(''21_training'', [''images'', ''21_training.tif'']),
                 (''22_training'', [''images'', ''22_training.tif''])],
       masks = [(''21_training'', [''mask'', ''21_training_mask.gif'']),
                (''22_training'', [''mask'', ''22_training_mask.gif''])],
       ids = [''21_training'', ''22_training''],
       transforms = PySet {Resize 572 BILINEAR, ToTensor} \<rparr>"

definition unpaired_ds :: "(path, path) eyeballDataset" where
  "unpaired_ds =
     \<lparr> images = [(''21_training'', [''images'', ''21_training.tif'']),
                 (''22_training'', [''images'', ''22_training.tif''])],
       masks = [(''21_training'', [''mask'', ''21_training_mask.gif''])],
       ids = [''21_training'', ''22_training''],
       transforms = PySet {Resize 572 BILINEAR, ToTensor} \<rparr>"

section \<open>The network, from the specification\<close>

text \<open>
  The notebook describes the U-Net in prose and holds no code for it: no convolution
  block, no encoder or decoder stage, no alignment step. The definitions of this section
  follow the specification's component design, and what is proved of them is proved of
  that design.
\<close>

datatype padding = Valid | Same

datatype arch_error = ShapeMismatchError

subsection \<open>Feature maps as data: center crop and concatenation\<close>

text \<open>
  Modelled from the spec: the Feature Map, absent from the source. A feature map is a
  list of channels, a channel a list of rows, a row a list of values. It has spatial size
  \<open>(h, w)\<close> when every channel has \<open>h\<close> rows of \<open>w\<close> values.
\<close>

type_synonym 'a fmap = "'a list list list"

definition spatial_ok :: "nat \<Rightarrow> nat \<Rightarrow> 'a fmap \<Rightarrow> bool" where
  "spatial_ok h w fm =
     list_all (\<lambda>ch. length ch = h \<and> list_all (\<lambda>row. length row = w) ch) fm"

text \<open>
  Modelled from the spec: the Center Crop, absent from the source: "symmetric trimming of
  a larger 2D array's border to match a smaller target's dimensions". Of an odd surplus
  the smaller half is trimmed before, the larger after.
\<close>

definition center_crop :: "nat \<Rightarrow> nat \<Rightarrow> 'a fmap \<Rightarrow> 'a fmap" where
  "center_crop h w fm =
     map (\<lambda>ch. map (\<lambda>row. take w (drop ((length row - w) div 2) row))
                   (take h (drop ((length ch - h) div 2) ch))) fm"

text \<open>
  Modelled from the spec: the spatial-alignment step of the Decoder Stage, absent from the
  source. The cached map is center-cropped to the decoder map's size \<open>(h, w)\<close>, which is
  the identity when the sizes agree already; a size that still differs after the crop is
  the fatal ShapeMismatchError. The decoder map is not an argument that is changed.
\<close>

definition align :: "nat \<Rightarrow> nat \<Rightarrow> 'a fmap \<Rightarrow> arch_error + 'a fmap" where
  "align h w cached =
     (let c = center_crop h w cached
      in if spatial_ok h w c then Inr c else Inl ShapeMismatchError)"

text \<open>
  Modelled from the spec: the channel-wise concatenation of the aligned cached map with
  the decoder map of size \<open>(h, w)\<close>, absent from the source.
\<close>

definition skip_concat :: "'a fmap \<Rightarrow> nat \<Rightarrow> nat \<Rightarrow> 'a fmap \<Rightarrow> arch_error + 'a fmap" where
  "skip_concat cached h w dec =
     (case align h w cached of Inl e \<Rightarrow> Inl e | Inr c \<Rightarrow> Inr (c @ dec))"

subsection \<open>The forward pass on shapes\<close>

text \<open>
  Modelled from the spec: the shape \<open>(batch, channels, height, width)\<close> of a batch of
  Feature Maps, absent from the source.
\<close>

record shape =
  batch :: nat
  chans :: nat
  height :: nat
  width :: nat

text \<open>
  Modelled from the spec: one convolution with activation, absent from the source. The
  kernel extent is the paper's 3: under the "valid" policy each side loses 2 (a side
  below 2 is outside the specification; the subtraction stops at 0 there), under "same"
  the size is kept.
\<close>

definition conv :: "padding \<Rightarrow> nat \<Rightarrow> shape \<Rightarrow> shape" where
  "conv p cout s =
     (case p of
        Valid \<Rightarrow> s\<lparr> chans := cout, height := height s - 2, width := width s - 2 \<rparr>
      | Same \<Rightarrow> s\<lparr> chans := cout \<rparr>)"

text \<open>
  Modelled from the spec: the Convolutional Block, absent from the source: two chained
  convolution stages to \<open>cout\<close> channels.
\<close>

definition conv_block :: "padding \<Rightarrow> nat \<Rightarrow> shape \<Rightarrow> shape" where
  "conv_block p cout s = conv p cout (conv p cout s)"

text \<open>
  Modelled from the spec: the downsampling of the Encoder Stage, absent from the source:
  max-pooling halves height and width and keeps the channels. The specification says
  what the half of an even size is and nothing of an odd size, so the halving of a size
  is the parameter \<open>half\<close>, of which the properties assume \<open>half (2 * n) = n\<close> only.
\<close>

definition max_pool :: "(nat \<Rightarrow> nat) \<Rightarrow> shape \<Rightarrow> shape" where
  "max_pool half s = s\<lparr> height := half (height s), width := half (width s) \<rparr>"

text \<open>
  Modelled from the spec: two halvings a pooling may be, absent from the source; they
  agree on even sizes and round an odd size down or up.
\<close>

definition half_floor :: "nat \<Rightarrow> nat" where
  "half_floor n = n div 2"

definition half_ceil :: "nat \<Rightarrow> nat" where
  "half_ceil n = (n + 1) div 2"

text \<open>
  Modelled from the spec: the Encoder Stage, absent from the source: the block's output
  is pushed to the Skip Cache and its downsampled copy is passed on. The stages run over
  the list of their channel counts.
\<close>

fun encoder ::
  "(nat \<Rightarrow> nat) \<Rightarrow> padding \<Rightarrow> nat list \<Rightarrow> shape \<Rightarrow> shape list \<Rightarrow> shape \<times> shape list" where
  "encoder half p [] x cache = (x, cache)"
| "encoder half p (cout # couts) x cache =
     encoder half p couts (max_pool half (conv_block p cout x)) (conv_block p cout x # cache)"

text \<open>
  Modelled from the spec: the upsampling of the Decoder Stage, absent from the source: it
  doubles height and width and halves the channels.
\<close>

definition upsample :: "shape \<Rightarrow> shape" where
  "upsample s = s\<lparr> chans := chans s div 2, height := 2 * height s, width := 2 * width s \<rparr>"

text \<open>
  Modelled from the spec: the alignment step on shapes, absent from the source. Under the
  "valid" policy the center crop gives the cached map the decoder map's size when the
  cached map is at least as large. Under the "same" policy the alignment is the identity
  pass with the assertion that the sizes are equal. Either way sizes that differ after
  the alignment are the fatal ShapeMismatchError.
\<close>

definition align_shape :: "padding \<Rightarrow> shape \<Rightarrow> shape \<Rightarrow> arch_error + shape" where
  "align_shape p cached dec =
     (case p of
        Valid \<Rightarrow>
          (if height dec \<le> height cached \<and> width dec \<le> width cached
           then Inr (cached\<lparr> height := height dec, width := width dec \<rparr>)
           else Inl ShapeMismatchError)
      | Same \<Rightarrow>
          (if height dec = height cached \<and> width dec = width cached
           then Inr cached
           else Inl ShapeMismatchError))"

text \<open>
  Modelled from the spec: the Decoder Stage, absent from the source: upsample, align the
  popped cached map, concatenate the channels, and apply a Convolutional Block that halves
  the concatenated channel count.
\<close>

definition decoder_stage :: "padding \<Rightarrow> shape \<Rightarrow> shape \<Rightarrow> arch_error + shape" where
  "decoder_stage p cached x =
     (let u = upsample x
      in case align_shape p cached u of
           Inl e \<Rightarrow> Inl e
         | Inr c \<Rightarrow>
             Inr (conv_block p ((chans c + chans u) div 2) (u\<lparr> chans := chans c + chans u \<rparr>)))"

text \<open>
  Modelled from the spec: the decoder path, absent from the source: one Decoder Stage for
  every cached map, the most recently pushed first.
\<close>

fun decoder :: "padding \<Rightarrow> shape \<Rightarrow> shape list \<Rightarrow> arch_error + shape" where
  "decoder p x [] = Inr x"
| "decoder p x (cached # cache) =
     (case decoder_stage p cached x of Inl e \<Rightarrow> Inl e | Inr y \<Rightarrow> decoder p y cache)"

text \<open>
  Modelled from the spec: the Output Head, absent from the source: a 1x1 convolution to
  the number of classes.
\<close>

definition output_head :: "nat \<Rightarrow> shape \<Rightarrow> shape" where
  "output_head classes s = s\<lparr> chans := classes \<rparr>"

text \<open>
  Modelled from the spec: the forward pass, absent from the source: four Encoder Stages
  with \<open>base\<close>, \<open>2 base\<close>, \<open>4 base\<close>, \<open>8 base\<close> channels on an empty Skip Cache, the
  Bottleneck with \<open>16 base\<close> channels, the decoder path, the Output Head.
\<close>

definition forward ::
  "(nat \<Rightarrow> nat) \<Rightarrow> padding \<Rightarrow> nat \<Rightarrow> nat \<Rightarrow> shape \<Rightarrow> arch_error + shape" where
  "forward half p base classes x =
     (case encoder half p [base, 2 * base, 4 * base, 8 * base] x [] of
        (y, cache) \<Rightarrow>
          (case decoder p (conv_block p (16 * base) y) cache of
             Inl e \<Rightarrow> Inl e
           | Inr d \<Rightarrow> Inr (output_head classes d)))"

section \<open>Properties of the dataset class\<close>

subsection \<open>Dictionaries, lists and paths\<close>

lemma foldl_update_keys:
  "fst ` set (foldl (\<lambda>d p. AList.update (key p) p d) d0 xs) = fst ` set d0 \<union> key ` set xs"
  by (induction xs arbitrary: d0) (auto simp: dom_update)

lemma dict_comp_keys: "set (keys (dict_comp key xs)) = key ` set xs"
  by (simp add: keys_def dict_comp_def foldl_update_keys)

lemma foldl_update_map_of:
  "map_of (foldl (\<lambda>d p. AList.update (key p) p d) d0 xs)
     = map_of d0 ++ map_of (rev (map (\<lambda>p. (key p, p)) xs))"
proof (induction xs arbitrary: d0)
  case Nil
  show ?case by simp
next
  case (Cons x xs)
  have "map_of (AList.update (key x) x d0) = map_of d0 ++ [key x \<mapsto> x]"
    by (simp add: update_conv')
  then show ?case
    by (simp add: Cons.IH map_add_assoc del: map_add_upd)
qed

lemma dict_comp_lookup:
  assumes "map_of (dict_comp key xs) k = Some v"
  shows "v \<in> set xs \<and> key v = k"
proof -
  have "map_of (rev (map (\<lambda>p. (key p, p)) xs)) k = Some v"
    using assms by (simp add: dict_comp_def foldl_update_map_of)
  then have "(k, v) \<in> set (rev (map (\<lambda>p. (key p, p)) xs))"
    by (rule map_of_SomeD)
  then show ?thesis by auto
qed

lemma keys_map_of: "k \<in> set (keys d) \<longleftrightarrow> (\<exists>v. map_of d k = Some v)"
  by (metis keys_def list.set_map map_of_eq_None_iff not_Some_eq)

lemma dict_comp_has:
  assumes "p \<in> set xs"
  shows "\<exists>q. map_of (dict_comp key xs) (key p) = Some q \<and> q \<in> set xs \<and> key q = key p"
proof -
  have "key p \<in> set (keys (dict_comp key xs))"
    using assms by (simp add: dict_comp_keys)
  then obtain q where "map_of (dict_comp key xs) (key p) = Some q"
    by (auto simp: keys_map_of)
  then show ?thesis using dict_comp_lookup by fastforce
qed

lemma dict_getitem_Inr: "dict_getitem d k = Inr v \<longleftrightarrow> map_of d k = Some v"
  by (simp add: dict_getitem_def split: option.splits)

lemma dict_getitem_Inl: "dict_getitem d k = Inl e \<longleftrightarrow> map_of d k = None \<and> e = KeyError k"
  by (auto simp: dict_getitem_def split: option.splits)

lemma list_getitem_mem: "list_getitem xs i = Inr x \<Longrightarrow> x \<in> set xs"
  by (auto simp: list_getitem_def split: if_splits)

lemma list_getitem_not_KeyError: "list_getitem xs i \<noteq> Inl (KeyError k)"
  by (simp add: list_getitem_def)

lemma slice_upto_suffix: "slice_upto (s @ ''_mask'') (- 5) = s"
  by (simp add: slice_upto_def)

subsection \<open>The constructor and item access\<close>

lemma init_InrD:
  assumes "init L a b = Inr ds"
  obtains ns ms where "L a = Inr ns" and "L b = Inr ms"
    and "images ds = dict_comp stem (map (\<lambda>n. a @ [n]) ns)"
    and "masks ds = dict_comp (\<lambda>p. slice_upto (stem p) (- 5)) (map (\<lambda>n. b @ [n]) ms)"
    and "ids ds = keys (images ds)"
    and "transforms ds = PySet {Resize 572 BILINEAR, ToTensor}"
  using assms
  by (auto simp: init_def iterdir_def Resize_init_def split: sum.splits)

lemma init_Inr:
  assumes "L a = Inr ns" and "L b = Inr ms"
  shows "init L a b =
    Inr \<lparr> images = dict_comp stem (map (\<lambda>n. a @ [n]) ns),
          masks = dict_comp (\<lambda>p. slice_upto (stem p) (- 5)) (map (\<lambda>n. b @ [n]) ms),
          ids = keys (dict_comp stem (map (\<lambda>n. a @ [n]) ns)),
          transforms = PySet {Resize 572 BILINEAR, ToTensor} \<rparr>"
  using assms by (simp add: init_def iterdir_def Resize_init_def)

lemma init_ids_in_images:
  assumes "init L a b = Inr ds" and "list_getitem (ids ds) idx = Inr k"
  shows "\<exists>p. map_of (images ds) k = Some p"
proof -
  from assms(1) have "ids ds = keys (images ds)" by (rule init_InrD)
  with assms(2) have "k \<in> set (keys (images ds))" by (auto dest: list_getitem_mem)
  then show ?thesis by (simp add: keys_map_of)
qed

lemma getitem_PySet_not_Inr:
  assumes "transforms ds = PySet s"
  shows "getitem ds opn idx \<noteq> Inr r"
  using assms by (simp add: getitem_def split: sum.splits)

lemma init_drive: "init drive_listdir [''images''] [''mask''] = Inr drive_ds"
  by (simp add: init_def iterdir_def drive_listdir_def drive_ds_def dict_comp_def keys_def
      stem_def name_def rfind_def slice_upto_def Resize_init_def)

lemma init_unpaired: "init unpaired_listdir [''images''] [''mask''] = Inr unpaired_ds"
  by (simp add: init_def iterdir_def unpaired_listdir_def unpaired_ds_def dict_comp_def keys_def
      stem_def name_def rfind_def slice_upto_def Resize_init_def)

subsection \<open>Construction and the identifier sets\<close>

text \<open>
  C3, as the code has it. The constructor compares nothing: for every pair of directories
  that can be listed, construction succeeds, and the keys of the two mappings are the
  identifiers derived from the two listings, whether the two sets agree or not. No
  DataIntegrityError exists in the program.
\<close>

theorem C3_init_succeeds:
  assumes "listdir image_path = Inr ns" and "listdir mask_path = Inr ms"
  shows "\<exists>ds. init listdir image_path mask_path = Inr ds
    \<and> set (keys (images ds)) = (\<lambda>n. stem (image_path @ [n])) ` set ns
    \<and> set (keys (masks ds)) = (\<lambda>n. slice_upto (stem (mask_path @ [n])) (- 5)) ` set ms"
  by (simp add: init_Inr [OF assms] dict_comp_keys image_image)

text \<open>
  The witness of C3: the directories of \<open>unpaired_listdir\<close>, where the second image has
  no mask.
\<close>

theorem C3_init_succeeds_witness:
  "unpaired_listdir [''images''] = Inr [''21_training.tif'', ''22_training.tif'']
   \<and> unpaired_listdir [''mask''] = Inr [''21_training_mask.gif'']
   \<and> (\<exists>ds :: (path, path) eyeballDataset.
         init unpaired_listdir [''images''] [''mask''] = Inr ds
         \<and> set (keys (images ds)) = {''21_training'', ''22_training''}
         \<and> set (keys (masks ds)) = {''21_training''})"
proof -
  have a: "unpaired_listdir [''images''] = Inr [''21_training.tif'', ''22_training.tif'']"
    and b: "unpaired_listdir [''mask''] = Inr [''21_training_mask.gif'']"
    by (simp_all add: unpaired_listdir_def)
  show ?thesis
    using C3_init_succeeds [OF a b]
    by (simp add: a b stem_def name_def rfind_def slice_upto_def)
qed

text \<open>
  C3 as stated fails: on the directories of \<open>unpaired_listdir\<close> the identifier sets
  differ, and construction returns a dataset.
\<close>

theorem C3_counterexample:
  "init unpaired_listdir [''images''] [''mask''] = Inr unpaired_ds
   \<and> set (keys (images unpaired_ds)) \<noteq> set (keys (masks unpaired_ds))"
  by (auto simp: init_unpaired) (auto simp: unpaired_ds_def keys_def)

text \<open>
  C8. For every pair of directories that can be listed the constructor returns a dataset
  in which the key of an image file is its stem, unchanged, and the keys of the image
  mapping are exactly the stems of the listed image files; the key of a mask file is its
  stem cut by \<open>[:-5]\<close>, which for a stem ending in \<open>_mask\<close> is the stem without that
  suffix, and that identifier is a key of the mask mapping.
\<close>

theorem C8_identifiers:
  assumes "listdir image_path = Inr ns" and "listdir mask_path = Inr ms"
  shows "\<exists>ds. init listdir image_path mask_path = Inr ds
    \<and> ids ds = keys (images ds)
    \<and> set (keys (images ds)) = (\<lambda>n. stem (image_path @ [n])) ` set ns
    \<and> set (keys (masks ds)) = (\<lambda>n. slice_upto (stem (mask_path @ [n])) (- 5)) ` set ms
    \<and> (n \<in> set ns \<longrightarrow>
         (\<exists>q. map_of (images ds) (stem (image_path @ [n])) = Some q
            \<and> stem q = stem (image_path @ [n])))
    \<and> (m \<in> set ms \<longrightarrow> stem (mask_path @ [m]) = s @ ''_mask'' \<longrightarrow>
         slice_upto (stem (mask_path @ [m])) (- 5) = s
         \<and> (\<exists>q. map_of (masks ds) s = Some q \<and> slice_upto (stem q) (- 5) = s))"
proof -
  let ?ifiles = "map (\<lambda>n. image_path @ [n]) ns"
  let ?mfiles = "map (\<lambda>n. mask_path @ [n]) ms"
  let ?mid = "\<lambda>p. slice_upto (stem p) (- 5)"
  let ?ds = "\<lparr> images = dict_comp stem ?ifiles, masks = dict_comp ?mid ?mfiles,
      ids = keys (dict_comp stem ?ifiles),
      transforms = PySet {Resize 572 BILINEAR, ToTensor} \<rparr>"
  have c: "init listdir image_path mask_path = Inr ?ds"
    using assms by (rule init_Inr)
  have i0: "ids ?ds = keys (images ?ds)" by simp
  have k1: "set (keys (images ?ds)) = (\<lambda>n. stem (image_path @ [n])) ` set ns"
    by (simp add: dict_comp_keys image_image)
  have k2: "set (keys (masks ?ds)) = (\<lambda>n. slice_upto (stem (mask_path @ [n])) (- 5)) ` set ms"
    by (simp add: dict_comp_keys image_image)
  have i: "\<exists>q. map_of (images ?ds) (stem (image_path @ [n])) = Some q
      \<and> stem q = stem (image_path @ [n])" if "n \<in> set ns"
  proof -
    from that have "image_path @ [n] \<in> set ?ifiles" by simp
    from dict_comp_has [OF this, of stem] show ?thesis by auto
  qed
  have m: "slice_upto (stem (mask_path @ [m])) (- 5) = s
      \<and> (\<exists>q. map_of (masks ?ds) s = Some q \<and> slice_upto (stem q) (- 5) = s)"
    if "m \<in> set ms" and st: "stem (mask_path @ [m]) = s @ ''_mask''"
  proof -
    have e: "?mid (mask_path @ [m]) = s" by (simp add: st slice_upto_suffix)
    from that have "mask_path @ [m] \<in> set ?mfiles" by simp
    from dict_comp_has [OF this, of ?mid] e show ?thesis by auto
  qed
  from c i0 k1 k2 i m show ?thesis by blast
qed

text \<open>
  The witness of C8: the DRIVE-like directories, the image \<open>21_training.tif\<close> and the
  mask \<open>22_training_mask.gif\<close>.
\<close>

theorem C8_identifiers_witness:
  "drive_listdir [''images''] = Inr [''21_training.tif'', ''22_training.tif'']
   \<and> drive_listdir [''mask''] = Inr [''21_training_mask.gif'', ''22_training_mask.gif'']
   \<and> ''21_training.tif'' \<in> set [''21_training.tif'', ''22_training.tif'']
   \<and> ''22_training_mask.gif'' \<in> set [''21_training_mask.gif'', ''22_training_mask.gif'']
   \<and> stem [''mask'', ''22_training_mask.gif''] = ''22_training'' @ ''_mask''
   \<and> (\<exists>ds :: (path, path) eyeballDataset.
         init drive_listdir [''images''] [''mask''] = Inr ds
         \<and> ids ds = keys (images ds)
         \<and> set (keys (images ds)) = {''21_training'', ''22_training''}
         \<and> set (keys (masks ds)) = {''21_training'', ''22_training''}
         \<and> (\<exists>q. map_of (images ds) ''21_training'' = Some q \<and> stem q = ''21_training'')
         \<and> slice_upto (stem [''mask'', ''22_training_mask.gif'']) (- 5) = ''22_training''
         \<and> (\<exists>q. map_of (masks ds) ''22_training'' = Some q
               \<and> slice_upto (stem q) (- 5) = ''22_training''))"
proof -
  have a: "drive_listdir [''images''] = Inr [''21_training.tif'', ''22_training.tif'']"
    and b: "drive_listdir [''mask''] = Inr [''21_training_mask.gif'', ''22_training_mask.gif'']"
    by (simp_all add: drive_listdir_def)
  have s1: "stem [''images'', ''21_training.tif''] = ''21_training''"
    and s2: "stem [''images'', ''22_training.tif''] = ''22_training''"
    and s3: "stem [''mask'', ''21_training_mask.gif''] = ''21_training_mask''"
    and s4: "stem [''mask'', ''22_training_mask.gif''] = ''22_training_mask''"
    by (simp_all add: stem_def name_def rfind_def)
  have c: "slice_upto ''21_training_mask'' (- 5) = ''21_training''"
    and d: "slice_upto ''22_training_mask'' (- 5) = ''22_training''"
    by (simp_all add: slice_upto_def)
  show ?thesis
    using C8_identifiers [OF a b, of "''21_training.tif''" "''22_training_mask.gif''"
        "''22_training''"]
    by (simp add: a b s1 s2 s3 s4 c d)
qed

subsection \<open>Length\<close>

text \<open>
  C6 fails on the code: \<open>__len__\<close> reads \<open>self.data\<close>, an attribute that is never
  assigned. On the dataset of the two DRIVE-like image files, whose identifiers match
  those of the masks, \<open>len\<close> raises AttributeError where the claim has it return 2.
\<close>

theorem C6_len_raises:
  "init drive_listdir [''images''] [''mask''] = Inr drive_ds
   \<and> length (ids drive_ds) = 2
   \<and> len drive_ds = Inl (AttributeError ''data'')"
  by (simp add: init_drive len_def getattr_def) (simp add: drive_ds_def)

subsection \<open>Item access\<close>

text \<open>
  C10. In every constructed dataset the id list is the key list of the image mapping, so
  for an index in range the lookup \<open>self.images[id_]\<close> returns a path; and when
  \<open>__getitem__\<close> raises a KeyError, the index was in range, the image lookup had
  succeeded, and the KeyError is that of the lookup \<open>self.masks[id_]\<close>.
\<close>

theorem C10_ids_are_image_keys:
  assumes "init listdir image_path mask_path = Inr ds"
  shows "ids ds = keys (images ds)
    \<and> (list_getitem (ids ds) idx = Inr ident \<longrightarrow> (\<exists>p. dict_getitem (images ds) ident = Inr p))
    \<and> (getitem ds Image_open idx' = Inl (KeyError k) \<longrightarrow>
         list_getitem (ids ds) idx' = Inr k
         \<and> (\<exists>p. dict_getitem (images ds) k = Inr p)
         \<and> dict_getitem (masks ds) k = Inl (KeyError k))"
proof -
  from assms have i: "ids ds = keys (images ds)" by (rule init_InrD)
  from assms have t: "transforms ds = PySet {Resize 572 BILINEAR, ToTensor}" by (rule init_InrD)
  have a: "\<exists>p. dict_getitem (images ds) ident = Inr p" if "list_getitem (ids ds) idx = Inr ident"
    for idx ident
    using init_ids_in_images [OF assms that] by (simp add: dict_getitem_Inr)
  have b: "list_getitem (ids ds) idx' = Inr k \<and> (\<exists>p. dict_getitem (images ds) k = Inr p)
      \<and> dict_getitem (masks ds) k = Inl (KeyError k)"
    if g: "getitem ds Image_open idx' = Inl (KeyError k)"
  proof (cases "list_getitem (ids ds) idx'")
    case (Inl e)
    with g have "e = KeyError k" by (simp add: getitem_def)
    with Inl show ?thesis by (simp add: list_getitem_not_KeyError)
  next
    case l: (Inr ident)
    from a [OF l] obtain p where p: "dict_getitem (images ds) ident = Inr p" ..
    show ?thesis
    proof (cases "Image_open p")
      case (Inl e)
      with g l p show ?thesis by (simp add: getitem_def)
    next
      case o: (Inr img)
      show ?thesis
      proof (cases "dict_getitem (masks ds) ident")
        case (Inl e)
        with g l p o have "e = KeyError k" by (simp add: getitem_def)
        with Inl have "k = ident" by (simp add: dict_getitem_Inl)
        with Inl l p \<open>e = KeyError k\<close> show ?thesis by auto
      next
        case m: (Inr mpath)
        show ?thesis
        proof (cases "Image_open mpath")
          case (Inl e)
          with g l p o m show ?thesis by (simp add: getitem_def)
        next
          case (Inr msk)
          with g l p o m t show ?thesis by (simp add: getitem_def)
        qed
      qed
    qed
  qed
  from i a b show ?thesis by blast
qed

text \<open>
  The witness of C10: in the dataset without the second mask, index 0 finds its image
  path, and index 1 raises the KeyError of the mask lookup.
\<close>

theorem C10_ids_are_image_keys_witness:
  "init unpaired_listdir [''images''] [''mask''] = Inr unpaired_ds
   \<and> ids unpaired_ds = keys (images unpaired_ds)
   \<and> list_getitem (ids unpaired_ds) 0 = Inr ''21_training''
   \<and> (\<exists>p. dict_getitem (images unpaired_ds) ''21_training'' = Inr p)
   \<and> getitem unpaired_ds open_all 1 = Inl (KeyError ''22_training'')
   \<and> list_getitem (ids unpaired_ds) 1 = Inr ''22_training''
   \<and> (\<exists>p. dict_getitem (images unpaired_ds) ''22_training'' = Inr p)
   \<and> dict_getitem (masks unpaired_ds) ''22_training'' = Inl (KeyError ''22_training'')"
proof -
  have g: "getitem unpaired_ds open_all 1 = Inl (KeyError ''22_training'')"
    by (simp add: getitem_def list_getitem_def dict_getitem_def open_all_def unpaired_ds_def)
  have l: "list_getitem (ids unpaired_ds) 0 = Inr ''21_training''"
    by (simp add: list_getitem_def unpaired_ds_def)
  from C10_ids_are_image_keys [OF init_unpaired, of 0 "''21_training''" open_all 1 "''22_training''"]
  show ?thesis
    unfolding g l
    by (simp add: init_unpaired) (simp add: unpaired_ds_def keys_def list_getitem_def)
qed

text \<open>
  C7, as the code has it. Items are requested by position. An identifier absent from the
  image mapping is not in the id list, so no position requests it. For a position in
  range whose identifier is absent from the mask mapping, the image path is found, and
  if that image file opens, \<open>__getitem__\<close> raises the KeyError of that identifier and
  leaves the dataset as it was.
\<close>

theorem C7_getitem_KeyError:
  assumes "init listdir image_path mask_path = Inr ds"
  shows "(map_of (images ds) k = None \<longrightarrow> k \<notin> set (ids ds))
    \<and> (list_getitem (ids ds) idx = Inr ident \<longrightarrow> map_of (masks ds) ident = None \<longrightarrow>
        (\<exists>ipath. map_of (images ds) ident = Some ipath
           \<and> (\<forall>img. Image_open ipath = Inr img \<longrightarrow>
                getitem_st ds Image_open idx = (Inl (KeyError ident), ds))))"
proof -
  from assms have i: "ids ds = keys (images ds)" by (rule init_InrD)
  have "k \<notin> set (ids ds)" if "map_of (images ds) k = None"
    using that by (simp add: i keys_map_of)
  moreover have "\<exists>ipath. map_of (images ds) ident = Some ipath
      \<and> (\<forall>img. Image_open ipath = Inr img \<longrightarrow>
            getitem_st ds Image_open idx = (Inl (KeyError ident), ds))"
    if g: "list_getitem (ids ds) idx = Inr ident" and m: "map_of (masks ds) ident = None"
  proof -
    from init_ids_in_images [OF assms g] obtain p where p: "map_of (images ds) ident = Some p" ..
    show ?thesis
      using g m p by (auto simp: getitem_st_def getitem_def dict_getitem_def)
  qed
  ultimately show ?thesis by blast
qed

text \<open>
  The witness of C7: the dataset without the second mask, position 1.
\<close>

theorem C7_getitem_KeyError_witness:
  "init unpaired_listdir [''images''] [''mask''] = Inr unpaired_ds
   \<and> map_of (images unpaired_ds) ''23_training'' = None
   \<and> ''23_training'' \<notin> set (ids unpaired_ds)
   \<and> list_getitem (ids unpaired_ds) 1 = Inr ''22_training''
   \<and> map_of (masks unpaired_ds) ''22_training'' = None
   \<and> map_of (images unpaired_ds) ''22_training'' = Some [''images'', ''22_training.tif'']
   \<and> open_all [''images'', ''22_training.tif''] = Inr [''images'', ''22_training.tif'']
   \<and> getitem_st unpaired_ds open_all 1 = (Inl (KeyError ''22_training''), unpaired_ds)"
proof -
  have m: "map_of (images unpaired_ds) ''22_training'' = Some [''images'', ''22_training.tif'']"
    and n: "map_of (masks unpaired_ds) ''22_training'' = None"
    and g: "list_getitem (ids unpaired_ds) 1 = Inr ''22_training''"
    and a: "map_of (images unpaired_ds) ''23_training'' = None"
    and o: "open_all [''images'', ''22_training.tif''] = Inr [''images'', ''22_training.tif'']"
    by (simp_all add: unpaired_ds_def list_getitem_def open_all_def)
  show ?thesis
    using C7_getitem_KeyError [OF init_unpaired, of "''23_training''" 1 "''22_training''" open_all]
    by (simp add: init_unpaired m n g a o)
qed

text \<open>
  C7 as stated fails: the image file is opened before the mask path is looked up. Where
  the image file of an identifier without mask cannot be decoded, the lookup fails with
  the decoder's error, not with a KeyError.
\<close>

theorem C7_counterexample:
  "init unpaired_listdir [''images''] [''mask''] = Inr unpaired_ds
   \<and> list_getitem (ids unpaired_ds) 1 = Inr ''22_training''
   \<and> map_of (masks unpaired_ds) ''22_training'' = None
   \<and> getitem unpaired_ds open_masks_only 1 = Inl (OSError UnidentifiedImageError)
   \<and> getitem unpaired_ds open_masks_only 1 \<noteq> Inl (KeyError ''22_training'')"
  by (simp add: init_unpaired getitem_def list_getitem_def dict_getitem_def open_masks_only_def
      unpaired_ds_def)

text \<open>
  C9, as the code has it. No constructed dataset ever returns a pair from
  \<open>__getitem__\<close>, for any index and any files. For an index in range whose identifier
  is in both mappings, \<open>__getitem__\<close> raises TypeError when both files open: the two
  calls of \<open>Image.open\<close> come before the call of \<open>self.transforms\<close>.
\<close>

theorem C9_getitem_TypeError:
  assumes "init listdir image_path mask_path = Inr ds"
  shows "getitem ds Image_open idx \<noteq> Inr r
    \<and> (list_getitem (ids ds) idx' = Inr ident \<longrightarrow>
       map_of (images ds) ident = Some ipath \<longrightarrow> map_of (masks ds) ident = Some mpath \<longrightarrow>
       Image_open ipath = Inr img \<longrightarrow> Image_open mpath = Inr msk \<longrightarrow>
       getitem ds Image_open idx' = Inl TypeError)"
proof -
  from assms have t: "transforms ds = PySet {Resize 572 BILINEAR, ToTensor}" by (rule init_InrD)
  then have "getitem ds Image_open idx \<noteq> Inr r" by (rule getitem_PySet_not_Inr)
  moreover have "getitem ds Image_open idx' = Inl TypeError"
    if "list_getitem (ids ds) idx' = Inr ident" "map_of (images ds) ident = Some ipath"
      "map_of (masks ds) ident = Some mpath" "Image_open ipath = Inr img" "Image_open mpath = Inr msk"
    using that t by (simp add: getitem_def dict_getitem_def)
  ultimately show ?thesis by blast
qed

text \<open>
  The witness of C9: the DRIVE-like dataset, the last position, every file opening.
\<close>

theorem C9_getitem_TypeError_witness:
  "init drive_listdir [''images''] [''mask''] = Inr drive_ds
   \<and> list_getitem (ids drive_ds) (- 1) = Inr ''22_training''
   \<and> map_of (images drive_ds) ''22_training'' = Some [''images'', ''22_training.tif'']
   \<and> map_of (masks drive_ds) ''22_training'' = Some [''mask'', ''22_training_mask.gif'']
   \<and> open_all [''images'', ''22_training.tif''] = Inr [''images'', ''22_training.tif'']
   \<and> open_all [''mask'', ''22_training_mask.gif''] = Inr [''mask'', ''22_training_mask.gif'']
   \<and> getitem drive_ds open_all (- 1) = Inl TypeError
   \<and> getitem drive_ds open_all 5 \<noteq> Inr ([], [])"
  using C9_getitem_TypeError [OF init_drive, of open_all 5 "([], [])" "- 1" "''22_training''"
      "[''images'', ''22_training.tif'']" "[''mask'', ''22_training_mask.gif'']"
      "[''images'', ''22_training.tif'']" "[''mask'', ''22_training_mask.gif'']"]
  by (simp add: init_drive open_all_def list_getitem_def) (simp add: drive_ds_def)

text \<open>
  C9 as stated fails: with an identifier present in both mappings and an image file that
  cannot be decoded, \<open>__getitem__\<close> raises the decoder's error and no TypeError.
\<close>

theorem C9_counterexample:
  "init drive_listdir [''images''] [''mask''] = Inr drive_ds
   \<and> list_getitem (ids drive_ds) 0 = Inr ''21_training''
   \<and> map_of (images drive_ds) ''21_training'' = Some [''images'', ''21_training.tif'']
   \<and> map_of (masks drive_ds) ''21_training'' = Some [''mask'', ''21_training_mask.gif'']
   \<and> getitem drive_ds open_masks_only 0 = Inl (OSError UnidentifiedImageError)
   \<and> getitem drive_ds open_masks_only 0 \<noteq> Inl TypeError"
  by (simp add: init_drive getitem_def list_getitem_def dict_getitem_def open_masks_only_def
      drive_ds_def)

subsection \<open>The sample transform\<close>

text \<open>
  C5 fails on the code: on the DRIVE-like dataset, with both files of the first sample
  opening, \<open>__getitem__\<close> raises TypeError at \<open>self.transforms(image)\<close>, where the
  claim has it return the resized pair.
\<close>

theorem C5_getitem_raises:
  "init drive_listdir [''images''] [''mask''] = Inr drive_ds
   \<and> open_all [''images'', ''21_training.tif''] = Inr [''images'', ''21_training.tif'']
   \<and> open_all [''mask'', ''21_training_mask.gif''] = Inr [''mask'', ''21_training_mask.gif'']
   \<and> getitem drive_ds open_all 0 = Inl TypeError"
  by (simp add: init_drive open_all_def getitem_def list_getitem_def dict_getitem_def drive_ds_def)




section \<open>Properties of the network design\<close>

subsection \<open>Alignment and concatenation\<close>



lemma center_crop_same_size:
  assumes "spatial_ok h w fm"
  shows "center_crop h w fm = fm"
proof -
  have "map (\<lambda>row. take w (drop ((length row - w) div 2) row))
          (take h (drop ((length ch - h) div 2) ch)) = ch"
    if "ch \<in> set fm" for ch
  proof -
    from assms that have l: "length ch = h" and r: "\<forall>row \<in> set ch. length row = w"
      by (auto simp: spatial_ok_def list_all_iff)
    from r have "map (\<lambda>row. take w (drop ((length row - w) div 2) row)) ch = ch"
      by (simp add: map_idI)
    with l show ?thesis by simp
  qed
  then show ?thesis
    by (simp add: center_crop_def map_idI)
qed



lemma skip_concat_example:
  "skip_concat [[[1, 2, 3, 4], [5, 6, 7, 8], [9, 10, 11, 12], [13, 14, 15, 16 :: nat]]] 2 2
     [[[0, 0], [0, 0]]] = Inr [[[6, 7], [10, 11]], [[0, 0], [0, 0]]]"
  by (simp add: skip_concat_def align_def center_crop_def spatial_ok_def)

lemma skip_concat_too_small:
  "skip_concat [[[1, 2], [3, 4 :: nat]]] 2 3 [[[0, 0, 0], [0, 0, 0]]] = Inl ShapeMismatchError"
  by (simp add: skip_concat_def align_def center_crop_def spatial_ok_def)



subsection \<open>The shape of the output\<close>

lemmas shape_defs = forward_def conv_block_def conv_def max_pool_def upsample_def
  decoder_stage_def align_shape_def output_head_def

text \<open>
  Under the "same" policy an input whose sides are multiples of 16 comes out with its own
  size: every pooled size is even down to the bottleneck.
\<close>

lemma forward_Same_multiple_of_16:
  assumes "\<And>n. half (2 * n) = n"
  shows "forward half Same base classes \<lparr>batch = b, chans = c, height = 16 * m, width = 16 * n\<rparr>
     = Inr \<lparr>batch = b, chans = classes, height = 16 * m, width = 16 * n\<rparr>"
proof -
  have h: "half (16 * k) = 8 * k" "half (8 * k) = 4 * k" "half (4 * k) = 2 * k"
    "half (2 * k) = k" for k
    using assms [of "8 * k"] assms [of "4 * k"] assms [of "2 * k"] assms [of k] by simp_all
  show ?thesis by (simp add: shape_defs h)
qed

lemma half_floor_even: "half_floor (2 * n) = n"
  by (simp add: half_floor_def)

lemma half_ceil_even: "half_ceil (2 * n) = n"
  by (simp add: half_ceil_def)

text \<open>
  C2, as the design has it. Let pooling halve every even size, whatever it does with an
  odd one. For a batch of shape \<open>(b, 3, 572, 572)\<close> and 64 base channels the forward
  pass under the "valid" policy returns \<open>classes\<close> channels of 388 by 388. Under the
  "same" policy it ends in ShapeMismatchError: the cached maps have sides 572, 286 and
  143, and no upsampled map, whose sides are doubled, has the odd side 143.
\<close>

theorem C2_forward_shape:
  assumes "\<And>n. half (2 * n) = n"
  shows "forward half Valid 64 classes \<lparr>batch = b, chans = 3, height = 572, width = 572\<rparr>
       = Inr \<lparr>batch = b, chans = classes, height = 388, width = 388\<rparr>
    \<and> forward half Same 64 classes \<lparr>batch = b, chans = 3, height = 572, width = 572\<rparr>
       = Inl ShapeMismatchError"
proof -
  have h: "half 568 = 284" "half 280 = 140" "half 136 = 68" "half 64 = 32"
    "half 572 = 286" "half 286 = 143"
    using assms [of 284] assms [of 140] assms [of 68] assms [of 32] assms [of 286]
      assms [of 143]
    by simp_all
  have v: "forward half Valid 64 classes \<lparr>batch = b, chans = 3, height = 572, width = 572\<rparr>
       = Inr \<lparr>batch = b, chans = classes, height = 388, width = 388\<rparr>"
    by (simp add: shape_defs h)
  have odd: "2 * k \<noteq> (143::nat)" for k by presburger
  have s: "forward half Same 64 classes \<lparr>batch = b, chans = 3, height = 572, width = 572\<rparr>
       = Inl ShapeMismatchError"
  proof (cases "2 * half (half 143) = half 143")
    case True
    then show ?thesis by (simp add: shape_defs h odd)
  next
    case False
    then show ?thesis by (simp add: shape_defs h)
  qed
  from v s show ?thesis ..
qed

text \<open>
  The witness of C2: pooling that rounds an odd size down.
\<close>

theorem C2_forward_shape_witness:
  "half_floor (2 * 286) = 286
   \<and> forward half_floor Valid 64 2 \<lparr>batch = 1, chans = 3, height = 572, width = 572\<rparr>
       = Inr \<lparr>batch = 1, chans = 2, height = 388, width = 388\<rparr>
   \<and> forward half_floor Same 64 2 \<lparr>batch = 1, chans = 3, height = 572, width = 572\<rparr>
       = Inl ShapeMismatchError"
  using C2_forward_shape [of half_floor 2 1, OF half_floor_even]
  by (simp add: half_floor_def)

text \<open>
  C2 as stated fails: under the "same" policy the forward pass on a 572 by 572 input
  returns no output of 572 by 572; it ends in ShapeMismatchError, whether pooling rounds
  an odd size down or up.
\<close>

theorem C2_counterexample:
  "forward half_floor Same 64 1 \<lparr>batch = 1, chans = 3, height = 572, width = 572\<rparr>
     = Inl ShapeMismatchError
   \<and> forward half_ceil Same 64 1 \<lparr>batch = 1, chans = 3, height = 572, width = 572\<rparr>
     = Inl ShapeMismatchError
   \<and> forward half_floor Same 64 1 \<lparr>batch = 1, chans = 3, height = 572, width = 572\<rparr>
     \<noteq> Inr \<lparr>batch = 1, chans = 1, height = 572, width = 572\<rparr>"
  by (simp add: shape_defs half_floor_def half_ceil_def)

end
